theory Spec2Isabelle
  imports Complex_Main
begin

section \<open>Per-feature significance tests of diffxpy (stats.py)\<close>

text \<open>
  The module \<^verbatim>\<open>diffxpy/stats.py\<close> holds six functions that turn fitted-model
  summaries or observation matrices into one p-value per feature (gene). This theory
  embeds the six functions and the numpy operations they use, and proves the
  properties stated for them.

  Conventions of the embedding:
  \<^item> a Python exception is a value of type \<open>error\<close>; a function that may raise returns
    \<open>error + 'a\<close>, \<open>Inl\<close> carrying the exception;
  \<^item> a floating-point number is a \<open>real\<close>: rounding, NaN and the infinities are not
    represented, so a division by zero has HOL's value \<open>0\<close> where numpy yields
    \<open>inf\<close> or \<open>nan\<close>; a theorem about the values a function returns assumes that
    the divisors of the function's own arithmetic are nonzero;
  \<^item> a one-dimensional array is a \<open>real list\<close>; an array that may have one or two
    dimensions is an \<open>ndarray\<close>;
  \<^item> the distribution functions of \<^verbatim>\<open>scipy.stats\<close> (the chi-square, Student t and
    standard normal CDFs and the Mann-Whitney U test) belong to a library outside the
    repository and are parameters of the functions that call them; each is taken to
    return a number on every argument.
\<close>

subsection \<open>Exceptions\<close>

datatype error = ValueError string | IndexError string

definition raise_bind :: "error + 'a \<Rightarrow> ('a \<Rightarrow> error + 'b) \<Rightarrow> error + 'b" where
  "raise_bind r f = (case r of Inl e \<Rightarrow> Inl e | Inr v \<Rightarrow> f v)"

text \<open>
  numpy raises \<^verbatim>\<open>ValueError: operands could not be broadcast together with shapes ...\<close>
  when two operand shapes are incompatible (the message goes on with the two shapes), and
  Python raises \<^verbatim>\<open>IndexError: tuple index out of range\<close> when \<^verbatim>\<open>shape[i]\<close> reads past
  the end of the shape tuple.
\<close>

definition broadcast_error :: error where
  "broadcast_error = ValueError ''operands could not be broadcast together''"

definition tuple_index_error :: error where
  "tuple_index_error = IndexError ''tuple index out of range''"

subsection \<open>One-dimensional arrays\<close>

text \<open>
  An elementwise binary operation on two one-dimensional arrays follows numpy's
  broadcasting rule: equal lengths combine index by index, an array of length one is
  stretched to the other's length, and any other pair of lengths raises.
\<close>

definition np_binary :: "(real \<Rightarrow> real \<Rightarrow> real) \<Rightarrow> real list \<Rightarrow> real list \<Rightarrow> error + real list" where
  "np_binary f xs ys =
     (if length xs = length ys then Inr (map2 f xs ys)
      else if length xs = 1 then Inr (map (f (hd xs)) ys)
      else if length ys = 1 then Inr (map (\<lambda>x. f x (hd ys)) xs)
      else Inl broadcast_error)"

definition np_square :: "real list \<Rightarrow> real list" where
  "np_square xs = map (\<lambda>x. x * x) xs"

definition np_sqrt :: "real list \<Rightarrow> real list" where
  "np_sqrt xs = map sqrt xs"

text \<open>An array divided by a Python int (\<^verbatim>\<open>var0 / n0\<close>) is a true division per element.\<close>

definition np_div_int :: "real list \<Rightarrow> int \<Rightarrow> real list" where
  "np_div_int xs n = map (\<lambda>x. x / real_of_int n) xs"

text \<open>\<^verbatim>\<open>1 - a\<close> for an array \<^verbatim>\<open>a\<close>.\<close>

definition one_minus :: "real list \<Rightarrow> real list" where
  "one_minus xs = map (\<lambda>x. 1 - x) xs"

subsection \<open>Likelihood-ratio test\<close>

text \<open>
  \<^verbatim>\<open>likelihood_ratio_test(ll_full, ll_reduced, df_full, df_reduced)\<close>. The guard of the
  source compares \<^verbatim>\<open>ll_full.shape[0]\<close> with \<^verbatim>\<open>ll_full.shape[0]\<close>, and so does the model.
  \<open>chi2_cdf k x\<close> stands for \<^verbatim>\<open>scipy.stats.chi2(k).cdf(x)\<close>.
\<close>

definition likelihood_ratio_test ::
  "(real \<Rightarrow> real \<Rightarrow> real) \<Rightarrow> real list \<Rightarrow> real list \<Rightarrow> int \<Rightarrow> int \<Rightarrow> error + real list" where
  "likelihood_ratio_test chi2_cdf ll_full ll_reduced df_full df_reduced =
     (if length ll_full \<noteq> length ll_full
      then Inl (ValueError ''stats.likelihood_ratio_test(): ll_full and ll_red have to contain the same number of genes'')
      else
        let delta_df = df_full - df_reduced in
        raise_bind (np_binary (-) ll_full ll_reduced) (\<lambda>diff.
        let delta_dev = map (\<lambda>d. 2 * d) diff;
            pvals = one_minus (map (chi2_cdf (real_of_int delta_df)) delta_dev)
        in Inr pvals))"

subsection \<open>Welch's t-test from moments\<close>

text \<open>
  \<^verbatim>\<open>t_test_moments(mu0, mu1, var0, var1, n0, n1)\<close>. Both guards raise the same message.
  \<open>t_cdf df x\<close> stands for \<^verbatim>\<open>scipy.stats.t(df).cdf(x)\<close>, which broadcasts the array of
  degrees of freedom against the array of statistics like any binary operation.
  \<open>t_test_moments_arith\<close> is the arithmetic after the guards (lines 138 to 150).
  Its divisors are \<open>n0\<close>, \<open>n1\<close>, \<open>n0 - 1\<close>, \<open>n1 - 1\<close>, the standard error
  \<open>s_delta\<close> and the denominator of the degrees of freedom. Where one of them is zero,
  numpy yields \<open>inf\<close> or \<open>nan\<close> and the model HOL's \<open>x / 0 = 0\<close>: the model gives
  the values of the program only where every divisor is nonzero (and the argument of
  the square root is not negative), and the theorems about values below assume so.
\<close>

definition t_test_moments_arith ::
  "(real \<Rightarrow> real \<Rightarrow> real) \<Rightarrow> real list \<Rightarrow> real list \<Rightarrow> real list \<Rightarrow> real list \<Rightarrow> int \<Rightarrow> int
     \<Rightarrow> error + real list" where
  "t_test_moments_arith t_cdf mu0 mu1 var0 var1 n0 n1 =
     raise_bind (np_binary (+) (np_div_int var0 n0) (np_div_int var1 n1)) (\<lambda>se2.
     let s_delta = np_sqrt se2 in
     raise_bind (np_binary (-) mu0 mu1) (\<lambda>dmu.
     raise_bind (np_binary (/) dmu s_delta) (\<lambda>t.
     raise_bind (np_binary (+) (np_div_int var0 n0) (np_div_int var1 n1)) (\<lambda>num.
     raise_bind (np_binary (+) (np_div_int (np_square (np_div_int var0 n0)) (n0 - 1))
                               (np_div_int (np_square (np_div_int var1 n1)) (n1 - 1))) (\<lambda>den.
     raise_bind (np_binary (/) (np_square num) den) (\<lambda>df.
     raise_bind (np_binary t_cdf df t) (\<lambda>cdf.
     Inr (one_minus cdf))))))))"

definition t_test_moments ::
  "(real \<Rightarrow> real \<Rightarrow> real) \<Rightarrow> real list \<Rightarrow> real list \<Rightarrow> real list \<Rightarrow> real list \<Rightarrow> int \<Rightarrow> int
     \<Rightarrow> error + real list" where
  "t_test_moments t_cdf mu0 mu1 var0 var1 n0 n1 =
     (if length mu0 \<noteq> length mu1
      then Inl (ValueError ''stats.t_test_moments(): mu and mu1 have to contain the same number of entries'')
      else if length var0 \<noteq> length var1
      then Inl (ValueError ''stats.t_test_moments(): mu and mu1 have to contain the same number of entries'')
      else t_test_moments_arith t_cdf mu0 mu1 var0 var1 n0 n1)"

subsection \<open>Wald test and two-coefficient z-test\<close>

text \<open>
  \<^verbatim>\<open>wald_test(theta_mle, theta_sd, theta0=0)\<close>: an omitted \<^verbatim>\<open>theta0\<close> is \<open>None\<close>.
  \<open>norm_cdf x\<close> stands for \<^verbatim>\<open>scipy.stats.norm(loc=0, scale=1).cdf(x)\<close>.
  Both functions divide by an array. At a zero divisor numpy yields \<open>inf\<close> or
  \<open>nan\<close> and the model HOL's \<open>x / 0 = 0\<close>: the model gives the values of the
  program only where the divisor has no zero entry, and the theorem about the values
  of \<open>wald_test\<close> below assumes so.
\<close>

definition wald_test ::
  "(real \<Rightarrow> real) \<Rightarrow> real list \<Rightarrow> real list \<Rightarrow> real option \<Rightarrow> error + real list" where
  "wald_test norm_cdf theta_mle theta_sd theta0_arg =
     (let theta0 = (case theta0_arg of None \<Rightarrow> 0 | Some v \<Rightarrow> v) in
      if length theta_mle \<noteq> length theta_sd
      then Inl (ValueError ''stats.wald_test(): theta_mle and theta_sd have to contain the same number of entries'')
      else
        raise_bind (np_binary (/) (map (\<lambda>m. m - theta0) theta_mle) theta_sd) (\<lambda>wald_statistic.
        Inr (one_minus (map norm_cdf wald_statistic))))"

definition two_coef_z_test ::
  "(real \<Rightarrow> real) \<Rightarrow> real list \<Rightarrow> real list \<Rightarrow> real list \<Rightarrow> real list \<Rightarrow> error + real list" where
  "two_coef_z_test norm_cdf theta_mle0 theta_mle1 theta_sd0 theta_sd1 =
     (if length theta_mle0 \<noteq> length theta_mle1
      then Inl (ValueError ''stats.two_coef_z_test(): theta_mle0 and theta_mle1 have to contain the same number of entries'')
      else if length theta_sd0 \<noteq> length theta_sd1
      then Inl (ValueError ''stats.two_coef_z_test(): theta_sd0 and theta_sd1 have to contain the same number of entries'')
      else if length theta_mle0 \<noteq> length theta_sd0
      then Inl (ValueError ''stats.two_coef_z_test(): theta_mle0 and theta_sd0 have to contain the same number of entries'')
      else
        raise_bind (np_binary (-) theta_mle0 theta_mle1) (\<lambda>dtheta.
        raise_bind (np_binary (+) (np_square theta_sd0) (np_square theta_sd1)) (\<lambda>s2.
        raise_bind (np_binary (/) dtheta (np_sqrt s2)) (\<lambda>z_statistic.
        Inr (one_minus (map norm_cdf z_statistic))))))"

subsection \<open>Arrays of one or two dimensions\<close>

text \<open>
  \<open>Arr1 xs\<close> is a one-dimensional array; \<open>Arr2 c rows\<close> is a two-dimensional array of
  \<open>length rows\<close> observations (rows) by \<open>c\<close> features (columns), kept as the list of its
  rows. It is well formed when every row has \<open>c\<close> entries.
\<close>

datatype ndarray = Arr1 "real list" | Arr2 nat "real list list"

fun wf_ndarray :: "ndarray \<Rightarrow> bool" where
  "wf_ndarray (Arr1 xs) = True"
| "wf_ndarray (Arr2 c rows) = list_all (\<lambda>r. length r = c) rows"

fun shape :: "ndarray \<Rightarrow> nat list" where
  "shape (Arr1 xs) = [length xs]"
| "shape (Arr2 c rows) = [length rows, c]"

definition ndim :: "ndarray \<Rightarrow> nat" where
  "ndim x = length (shape x)"

text \<open>\<^verbatim>\<open>x.shape[i]\<close>: an index past the end of the tuple raises.\<close>

definition shape_at :: "ndarray \<Rightarrow> nat \<Rightarrow> error + nat" where
  "shape_at x i = (if i < length (shape x) then Inr (shape x ! i) else Inl tuple_index_error)"

text \<open>
  \<^verbatim>\<open>x.reshape([x.shape[0], 1])\<close>: a one-dimensional array becomes a single column. A
  two-dimensional array keeps its entries when it has one column or no row, and numpy
  raises otherwise, the sizes being different.
\<close>

fun reshape_column :: "ndarray \<Rightarrow> error + ndarray" where
  "reshape_column (Arr1 xs) = Inr (Arr2 1 (map (\<lambda>v. [v]) xs))"
| "reshape_column (Arr2 c rows) =
     (if length rows * c = length rows * 1 then Inr (Arr2 1 rows)
      else Inl (ValueError ''cannot reshape array''))"

text \<open>\<^verbatim>\<open>x[:, i].flatten()\<close>: column \<open>i\<close>; a one-dimensional array has no second axis.\<close>

fun take_column :: "ndarray \<Rightarrow> nat \<Rightarrow> error + real list" where
  "take_column (Arr1 xs) i = Inl (IndexError ''too many indices for array'')"
| "take_column (Arr2 c rows) i =
     (if i < c then Inr (map (\<lambda>r. r ! i) rows)
      else Inl (IndexError ''index is out of bounds for axis 1''))"

text \<open>
  \<^verbatim>\<open>np.mean(x, axis=0).flatten()\<close> and \<^verbatim>\<open>np.var(x, axis=0).flatten()\<close>. numpy adds the
  rows up (a reduction over axis 0) and divides by the number of rows. Its variance
  takes the mean so computed, subtracts it from every row, squares the deviations
  entry by entry, adds the rows up again and divides by \<^verbatim>\<open>n - ddof\<close>, where
  \<^verbatim>\<open>ddof\<close> is \<open>0\<close> unless the caller passes it; the source does not.
\<close>

fun np_sum_axis0 :: "ndarray \<Rightarrow> real list" where
  "np_sum_axis0 (Arr1 xs) = [sum_list xs]"
| "np_sum_axis0 (Arr2 c rows) = foldl (\<lambda>acc r. map2 (+) acc r) (replicate c 0) rows"

definition np_mean_axis0 :: "ndarray \<Rightarrow> real list" where
  "np_mean_axis0 x = map (\<lambda>s. s / real (hd (shape x))) (np_sum_axis0 x)"

fun sq_deviations :: "ndarray \<Rightarrow> real list \<Rightarrow> ndarray" where
  "sq_deviations (Arr1 xs) m = Arr1 (map (\<lambda>v. (v - hd m) * (v - hd m)) xs)"
| "sq_deviations (Arr2 c rows) m =
     Arr2 c (map (\<lambda>r. map (\<lambda>d. d * d) (map2 (-) r m)) rows)"

definition np_var_axis0 :: "ndarray \<Rightarrow> real list" where
  "np_var_axis0 x =
     (let arrmean = np_mean_axis0 x;
          ddof = 0
      in map (\<lambda>s. s / real (hd (shape x) - ddof)) (np_sum_axis0 (sq_deviations x arrmean)))"

text \<open>A list comprehension whose element expression may raise stops at the first raise.\<close>

fun collect :: "(error + 'a) list \<Rightarrow> error + 'a list" where
  "collect [] = Inr []"
| "collect (r # rs) =
     raise_bind r (\<lambda>v. raise_bind (collect rs) (\<lambda>vs. Inr (v # vs)))"

subsection \<open>Wilcoxon rank-sum test\<close>

text \<open>
  \<^verbatim>\<open>wilcoxon(x0, x1)\<close>. \<open>mannwhitneyu x y\<close> stands for
  \<^verbatim>\<open>scipy.stats.mannwhitneyu(x=x, y=y, alternative='two-sided').pvalue\<close>.
\<close>

definition reshape_if_1d :: "ndarray \<Rightarrow> ndarray \<Rightarrow> error + ndarray \<times> ndarray" where
  "reshape_if_1d x0 x1 =
     (if ndim x0 = 1
      then raise_bind (reshape_column x0) (\<lambda>y0.
           raise_bind (reshape_column x1) (\<lambda>y1. Inr (y0, y1)))
      else Inr (x0, x1))"

definition wilcoxon ::
  "(real list \<Rightarrow> real list \<Rightarrow> real) \<Rightarrow> ndarray \<Rightarrow> ndarray \<Rightarrow> error + real list" where
  "wilcoxon mannwhitneyu x0 x1 =
     (if ndim x0 \<noteq> ndim x1
      then Inl (ValueError ''stats.wilcoxon(): number of dimensions is not allowed to differ between x0 and x1!'')
      else
        raise_bind (reshape_if_1d x0 x1) (\<lambda>(y0, y1).
        raise_bind (shape_at y0 1) (\<lambda>c0.
        raise_bind (shape_at y1 1) (\<lambda>c1.
        if c0 \<noteq> c1
        then Inl (ValueError ''stats.wilcoxon(): the first axis (number of tests) is not allowed to differ between x0 and x1!'')
        else
          raise_bind (shape_at y0 1) (\<lambda>c.
          collect (map (\<lambda>i.
            raise_bind (take_column y0 i) (\<lambda>a.
            raise_bind (take_column y1 i) (\<lambda>b.
            Inr (mannwhitneyu a b)))) [0..<c]))))))"

subsection \<open>Welch's t-test from raw observations\<close>

text \<open>
  \<^verbatim>\<open>t_test_raw(x0, x1)\<close>. The source reads \<^verbatim>\<open>x0.shape[1]\<close> and \<^verbatim>\<open>x1.shape[1]\<close> in its
  first guard, before the reshape of one-dimensional inputs; the second guard carries
  the message of \<^verbatim>\<open>wilcoxon\<close>.
\<close>

definition t_test_raw ::
  "(real \<Rightarrow> real \<Rightarrow> real) \<Rightarrow> ndarray \<Rightarrow> ndarray \<Rightarrow> error + real list" where
  "t_test_raw t_cdf x0 x1 =
     raise_bind (shape_at x0 1) (\<lambda>g0.
     raise_bind (shape_at x1 1) (\<lambda>g1.
     if g0 \<noteq> g1
     then Inl (ValueError ''stats.t_test_raw(): x0 and x1 have to contain the same number of genes'')
     else
       raise_bind (reshape_if_1d x0 x1) (\<lambda>(y0, y1).
       raise_bind (shape_at y0 1) (\<lambda>c0.
       raise_bind (shape_at y1 1) (\<lambda>c1.
       if c0 \<noteq> c1
       then Inl (ValueError ''stats.wilcoxon(): the first axis (number of tests) is not allowed to differ between x0 and x1!'')
       else
         let mu0 = np_mean_axis0 y0;
             var0 = np_var_axis0 y0;
             mu1 = np_mean_axis0 y1;
             var1 = np_var_axis0 y1
         in
         raise_bind (shape_at y0 0) (\<lambda>n0.
         raise_bind (shape_at y1 0) (\<lambda>n1.
         t_test_moments t_cdf mu0 mu1 var0 var1 (int n0) (int n1))))))))"

subsection \<open>The moments as the specification words them\<close>

text \<open>
  The specification describes the moments handed to \<open>t_test_moments\<close> column by column:
  the mean of a column is its sum over its number of entries, and its population
  variance is the sum of the squared deviations from that mean over the number of
  entries (the divisor is \<open>n\<close>, not \<open>n - 1\<close>).
\<close>

definition spec_columns :: "nat \<Rightarrow> real list list \<Rightarrow> real list list" where
  "spec_columns c rows = map (\<lambda>j. map (\<lambda>r. r ! j) rows) [0..<c]"

definition spec_mean :: "real list \<Rightarrow> real" where
  "spec_mean xs = sum_list xs / real (length xs)"

definition spec_population_variance :: "real list \<Rightarrow> real" where
  "spec_population_variance xs =
     sum_list (map (\<lambda>x. (x - spec_mean xs)\<^sup>2) xs) / real (length xs)"

subsection \<open>Reading an error message\<close>

text \<open>\<open>mentions msg w\<close>: the word \<open>w\<close> occurs in the message as a contiguous substring.\<close>

fun starts_with :: "string \<Rightarrow> string \<Rightarrow> bool" where
  "starts_with s [] = True"
| "starts_with [] (c # w) = False"
| "starts_with (d # s) (c # w) = (d = c \<and> starts_with s w)"

fun mentions :: "string \<Rightarrow> string \<Rightarrow> bool" where
  "mentions [] w = (w = [])"
| "mentions (d # s) w = (starts_with (d # s) w \<or> mentions s w)"

text \<open>The argument names, out of a given list, that a message mentions.\<close>

definition named_in :: "string \<Rightarrow> (string \<times> 'a) list \<Rightarrow> (string \<times> 'a) list" where
  "named_in msg args = filter (\<lambda>(name, v). mentions msg name) args"

subsection \<open>Welch's statistic as the specification words it\<close>

text \<open>
  For one feature with means \<open>m0\<close>, \<open>m1\<close>, variances \<open>v0\<close>, \<open>v1\<close> and group sizes
  \<open>n0\<close>, \<open>n1\<close>: the statistic \<open>t = (m0 - m1) / sqrt (v0/n0 + v1/n1)\<close> and the
  Welch-Satterthwaite degrees of freedom
  \<open>(v0/n0 + v1/n1)\<^sup>2 / ((v0/n0)\<^sup>2/(n0-1) + (v1/n1)\<^sup>2/(n1-1))\<close>.
\<close>

definition spec_welch_t :: "real \<Rightarrow> real \<Rightarrow> real \<Rightarrow> real \<Rightarrow> int \<Rightarrow> int \<Rightarrow> real" where
  "spec_welch_t m0 m1 v0 v1 n0 n1 =
     (m0 - m1) / sqrt (v0 / real_of_int n0 + v1 / real_of_int n1)"

definition spec_welch_df :: "real \<Rightarrow> real \<Rightarrow> int \<Rightarrow> int \<Rightarrow> real" where
  "spec_welch_df v0 v1 n0 n1 =
     (v0 / real_of_int n0 + v1 / real_of_int n1)\<^sup>2 /
     ((v0 / real_of_int n0)\<^sup>2 / real_of_int (n0 - 1)
      + (v1 / real_of_int n1)\<^sup>2 / real_of_int (n1 - 1))"

subsection \<open>Features and columns as the specification words them\<close>

text \<open>
  The feature count of an array once a one-dimensional input counts as a single
  column, and the observations of feature \<open>i\<close>.
\<close>

fun features :: "ndarray \<Rightarrow> nat" where
  "features (Arr1 xs) = 1"
| "features (Arr2 c rows) = c"

fun spec_column :: "ndarray \<Rightarrow> nat \<Rightarrow> real list" where
  "spec_column (Arr1 xs) i = xs"
| "spec_column (Arr2 c rows) i = map (\<lambda>r. r ! i) rows"

subsection \<open>Sample distribution functions\<close>

text \<open>
  Concrete functions to run the embedded tests on explicit inputs. \<open>sample_chi2_cdf\<close>
  is the chi-square CDF at two degrees of freedom (it ignores its first argument);
  \<open>sample_t_cdf\<close> varies with the degrees of freedom and is the Student t CDF at two
  degrees of freedom;
  \<open>sample_norm_cdf\<close> interpolates the standard normal CDF linearly between its
  values at \<open>-1\<close>, \<open>0\<close> and \<open>1\<close>, rounded to five decimals;
  \<open>sample_mannwhitneyu\<close> is a score between \<open>0\<close> and \<open>1\<close> computed from the
  Mann-Whitney \<open>U\<close> statistic of the two samples (ties count one half).
\<close>

definition sample_chi2_cdf :: "real \<Rightarrow> real \<Rightarrow> real" where
  "sample_chi2_cdf k x = (if x \<le> 0 then 0 else 1 - exp (- x / 2))"

definition sample_t_cdf :: "real \<Rightarrow> real \<Rightarrow> real" where
  "sample_t_cdf df x = 1 / 2 + x / (2 * sqrt (df + x * x))"

definition sample_norm_cdf :: "real \<Rightarrow> real" where
  "sample_norm_cdf z = 1 / 2 + 34134 / 100000 * max (- 1) (min 1 z)"

definition sample_mannwhitneyu :: "real list \<Rightarrow> real list \<Rightarrow> real" where
  "sample_mannwhitneyu x y =
     (let u = sum_list (map (\<lambda>a. sum_list (map (\<lambda>b. if b < a then 1 else if b = a then 1 / 2 else 0) y)) x);
          n = real (length x) * real (length y)
      in 1 - \<bar>2 * u - n\<bar> / n)"

section \<open>Properties\<close>

subsection \<open>Auxiliary facts\<close>

lemma raise_bind_Inr: "raise_bind (Inr v) f = f v"
  by (simp add: raise_bind_def)

lemma raise_bind_Inl: "raise_bind (Inl e) f = Inl e"
  by (simp add: raise_bind_def)

lemma np_binary_same: "length xs = length ys \<Longrightarrow> np_binary f xs ys = Inr (map2 f xs ys)"
  by (simp add: np_binary_def)

lemma welch_divisors_positive:
  fixes v0 v1 :: real and n0 n1 :: int
  assumes "1 < n0" and "1 < n1" and "0 < v0 / real_of_int n0 + v1 / real_of_int n1"
  shows "0 < sqrt (v0 / real_of_int n0 + v1 / real_of_int n1)"
    and "0 < (v0 / real_of_int n0)\<^sup>2 / real_of_int (n0 - 1)
           + (v1 / real_of_int n1)\<^sup>2 / real_of_int (n1 - 1)"
proof -
  show "0 < sqrt (v0 / real_of_int n0 + v1 / real_of_int n1)"
    using assms(3) by simp
  let ?a = "v0 / real_of_int n0" and ?b = "v1 / real_of_int n1"
  have p0: "0 < real_of_int (n0 - 1)" and p1: "0 < real_of_int (n1 - 1)"
    using assms(1,2) by simp_all
  have "?a \<noteq> 0 \<or> ?b \<noteq> 0"
    using assms(3) by auto
  then consider "0 < ?a\<^sup>2" | "0 < ?b\<^sup>2"
    by auto
  then show "0 < ?a\<^sup>2 / real_of_int (n0 - 1) + ?b\<^sup>2 / real_of_int (n1 - 1)"
  proof cases
    case 1
    then have "0 < ?a\<^sup>2 / real_of_int (n0 - 1)"
      using p0 by (rule divide_pos_pos)
    moreover have "0 \<le> ?b\<^sup>2 / real_of_int (n1 - 1)"
      using p1 by (intro divide_nonneg_pos) simp_all
    ultimately show ?thesis by linarith
  next
    case 2
    then have "0 < ?b\<^sup>2 / real_of_int (n1 - 1)"
      using p1 by (rule divide_pos_pos)
    moreover have "0 \<le> ?a\<^sup>2 / real_of_int (n0 - 1)"
      using p0 by (intro divide_nonneg_pos) simp_all
    ultimately show ?thesis by linarith
  qed
qed

lemma sum_rows_nth:
  "list_all (\<lambda>r. length r = c) rows \<Longrightarrow> length acc = c \<Longrightarrow>
   foldl (\<lambda>acc r. map2 (+) acc r) acc rows =
     map (\<lambda>j. acc ! j + sum_list (map (\<lambda>r. r ! j) rows)) [0..<c]"
proof (induction rows arbitrary: acc)
  case Nil
  then show ?case by (simp add: list_eq_iff_nth_eq)
next
  case (Cons r rows)
  then have len: "length (map2 (+) acc r) = c" and rest: "list_all (\<lambda>r. length r = c) rows"
    and r: "length r = c"
    by simp_all
  show ?case
    using Cons.IH [OF rest len] r Cons.prems(2)
    by (simp add: add.assoc)
qed

lemma np_sum_axis0_columns:
  assumes "list_all (\<lambda>r. length r = c) rows"
  shows "np_sum_axis0 (Arr2 c rows) = map sum_list (spec_columns c rows)"
  using sum_rows_nth [OF assms, of "replicate c 0"]
  by (simp add: spec_columns_def)

lemma np_mean_axis0_columns:
  assumes "list_all (\<lambda>r. length r = c) rows"
  shows "np_mean_axis0 (Arr2 c rows) = map spec_mean (spec_columns c rows)"
  unfolding np_mean_axis0_def np_sum_axis0_columns [OF assms]
  by (simp add: spec_mean_def spec_columns_def)

lemma np_var_axis0_columns:
  assumes "list_all (\<lambda>r. length r = c) rows"
  shows "np_var_axis0 (Arr2 c rows) = map spec_population_variance (spec_columns c rows)"
proof -
  let ?m = "np_mean_axis0 (Arr2 c rows)"
  let ?dev = "\<lambda>r. map (\<lambda>d. d * d) (map2 (-) r ?m)"
  have m: "?m = map spec_mean (spec_columns c rows)"
    by (rule np_mean_axis0_columns [OF assms])
  have lm: "length ?m = c"
    by (simp add: m spec_columns_def)
  have wf: "list_all (\<lambda>r. length r = c) (map ?dev rows)"
    using assms lm by (simp add: list_all_iff)
  have entry: "?dev r ! j = (r ! j - spec_mean (map (\<lambda>r. r ! j) rows))\<^sup>2"
    if "j < c" and "r \<in> set rows" for j r
  proof -
    from that assms have "length r = c"
      by (simp add: list_all_iff)
    moreover have "?m ! j = spec_mean (map (\<lambda>r. r ! j) rows)"
      using that by (simp add: m spec_columns_def)
    ultimately show ?thesis
      using that lm by (simp add: power2_eq_square)
  qed
  have "np_var_axis0 (Arr2 c rows) =
      map (\<lambda>s. s / real (length rows)) (np_sum_axis0 (Arr2 c (map ?dev rows)))"
    by (simp add: np_var_axis0_def)
  also have "\<dots> = map (\<lambda>s. s / real (length rows)) (map sum_list (spec_columns c (map ?dev rows)))"
    by (simp only: np_sum_axis0_columns [OF wf])
  also have "\<dots> = map (\<lambda>j. sum_list (map (\<lambda>r. ?dev r ! j) rows) / real (length rows)) [0..<c]"
    by (simp add: spec_columns_def comp_def)
  also have "\<dots> = map (\<lambda>j. sum_list (map (\<lambda>r. (r ! j - spec_mean (map (\<lambda>r. r ! j) rows))\<^sup>2) rows)
        / real (length rows)) [0..<c]"
  proof (rule map_cong [OF refl])
    fix j assume "j \<in> set [0..<c]"
    then have "j < c" by simp
    then have "map (\<lambda>r. ?dev r ! j) rows =
        map (\<lambda>r. (r ! j - spec_mean (map (\<lambda>r. r ! j) rows))\<^sup>2) rows"
      by (intro map_cong [OF refl] entry)
    then show "sum_list (map (\<lambda>r. ?dev r ! j) rows) / real (length rows) =
        sum_list (map (\<lambda>r. (r ! j - spec_mean (map (\<lambda>r. r ! j) rows))\<^sup>2) rows) / real (length rows)"
      by (simp only:)
  qed
  also have "\<dots> = map spec_population_variance (spec_columns c rows)"
    by (simp add: spec_population_variance_def spec_columns_def comp_def)
  finally show ?thesis .
qed

lemma collect_all_Inr: "collect (map (\<lambda>i. Inr (g i)) is) = Inr (map g is)"
  by (induction "is") (simp_all add: raise_bind_Inr)

lemma wilcoxon_columns:
  assumes "ndim x0 = ndim x1" and "features x0 = features x1"
  shows "wilcoxon mwu x0 x1 =
     Inr (map (\<lambda>i. mwu (spec_column x0 i) (spec_column x1 i)) [0..<features x0])"
proof (cases x0)
  case (Arr1 xs)
  with assms obtain ys where x1: "x1 = Arr1 ys"
    by (cases x1) (simp_all add: ndim_def)
  have "map (\<lambda>r. r ! 0) (map (\<lambda>v. [v]) zs) = zs" for zs :: "real list"
    by (simp add: comp_def)
  then show ?thesis
    by (simp add: Arr1 x1 wilcoxon_def ndim_def reshape_if_1d_def raise_bind_Inr shape_at_def
        comp_def)
next
  case (Arr2 c rows0)
  with assms obtain rows1 where x1: "x1 = Arr2 c rows1"
    by (cases x1) (simp_all add: ndim_def)
  have cols: "map (\<lambda>i. raise_bind (take_column (Arr2 c rows0) i) (\<lambda>a.
                 raise_bind (take_column (Arr2 c rows1) i) (\<lambda>b. Inr (mwu a b)))) [0..<c] =
        map (\<lambda>i. Inr (mwu (map (\<lambda>r. r ! i) rows0) (map (\<lambda>r. r ! i) rows1))) [0..<c]"
    by (rule map_cong [OF refl]) (simp add: raise_bind_Inr)
  have "wilcoxon mwu (Arr2 c rows0) (Arr2 c rows1) =
      collect (map (\<lambda>i. raise_bind (take_column (Arr2 c rows0) i) (\<lambda>a.
                 raise_bind (take_column (Arr2 c rows1) i) (\<lambda>b. Inr (mwu a b)))) [0..<c])"
    by (simp add: wilcoxon_def ndim_def reshape_if_1d_def raise_bind_Inr shape_at_def
        del: take_column.simps)
  also have "\<dots> = collect (map (\<lambda>i. Inr (mwu (map (\<lambda>r. r ! i) rows0) (map (\<lambda>r. r ! i) rows1))) [0..<c])"
    by (simp only: cols)
  also have "\<dots> = Inr (map (\<lambda>i. mwu (map (\<lambda>r. r ! i) rows0) (map (\<lambda>r. r ! i) rows1)) [0..<c])"
    by (rule collect_all_Inr)
  finally show ?thesis
    by (simp add: Arr2 x1)
qed

subsection \<open>Likelihood-ratio test\<close>

text \<open>
  C1. The claim: for log-likelihood vectors of unequal length,
  \<open>likelihood_ratio_test\<close> raises a shape-mismatch error before it computes any p-value.
  The guard of the source compares \<^verbatim>\<open>ll_full.shape[0]\<close> with itself and never fires. On
  \<open>ll_full = [-100, -50]\<close> and \<open>ll_reduced = [-105]\<close> the subtraction broadcasts the
  single entry of \<open>ll_reduced\<close>, and the function returns two p-values
  (deviances \<open>10\<close> and \<open>110\<close>) without raising.
\<close>

theorem likelihood_ratio_test_unequal_lengths_returns:
  "likelihood_ratio_test chi2_cdf [- 100, - 50] [- 105] 3 1 =
     Inr [1 - chi2_cdf 2 10, 1 - chi2_cdf 2 110]"
  by (simp add: likelihood_ratio_test_def np_binary_def raise_bind_Inr one_minus_def)

text \<open>
  C4. For log-likelihood vectors of equal length, \<open>likelihood_ratio_test\<close> returns for
  every feature \<open>1 - CDF_chi2(df_full - df_reduced)(2 * (ll_full - ll_reduced))\<close>. On
  \<open>ll_full = [-100, -50]\<close>, \<open>ll_reduced = [-105, -50]\<close>, \<open>df_full = 3\<close>,
  \<open>df_reduced = 1\<close> the second p-value is exactly \<open>1\<close>, for every chi-square CDF that is
  \<open>0\<close> at deviance \<open>0\<close> with two degrees of freedom.
\<close>

theorem likelihood_ratio_test_formula:
  "(length ll_full = length ll_reduced \<longrightarrow>
      likelihood_ratio_test chi2_cdf ll_full ll_reduced df_full df_reduced =
        Inr (map2 (\<lambda>f r. 1 - chi2_cdf (real_of_int (df_full - df_reduced)) (2 * (f - r)))
               ll_full ll_reduced))
   \<and> (chi2_cdf 2 0 = 0 \<longrightarrow>
        (\<exists>p0. likelihood_ratio_test chi2_cdf [- 100, - 50] [- 105, - 50] 3 1 = Inr [p0, 1]))"
  by (auto simp: likelihood_ratio_test_def np_binary_same raise_bind_Inr one_minus_def)

theorem likelihood_ratio_test_formula_witness:
  "length [- 100, - 50 :: real] = length [- 105, - 50 :: real]
   \<and> sample_chi2_cdf 2 0 = 0
   \<and> likelihood_ratio_test sample_chi2_cdf [- 100, - 50] [- 105, - 50] 3 1 = Inr [exp (- 5), 1]"
  using likelihood_ratio_test_formula [of "[- 100, - 50]" "[- 105, - 50]" sample_chi2_cdf 3 1]
  by (simp add: sample_chi2_cdf_def)

subsection \<open>Wald test\<close>

text \<open>
  C5. For arrays \<open>theta_mle\<close> and \<open>theta_sd\<close> of equal length, \<open>theta_sd\<close> having no zero
  entry, and a reference value \<open>theta0\<close> (\<open>0\<close> when omitted), \<open>wald_test\<close> returns for
  every feature the upper-tail p-value
  \<open>1 - CDF_Normal(0,1)((theta_mle - theta0) / theta_sd)\<close>. On \<open>theta_mle = [1]\<close>,
  \<open>theta_sd = [1]\<close>, \<open>theta0 = 0\<close> it returns \<open>[1 - \<Phi>(1)]\<close>, which is within \<open>0.0001\<close> of
  \<open>0.1587\<close> whenever the library's \<open>\<Phi>(1)\<close> is within \<open>0.00005\<close> of \<open>0.84134\<close>.
  (At a zero entry of \<open>theta_sd\<close> the program passes \<open>inf\<close> or \<open>nan\<close> to the CDF, which
  the real numbers of the model do not represent.)
\<close>

theorem wald_test_formula:
  "(length theta_mle = length theta_sd \<and> 0 \<notin> set theta_sd \<longrightarrow>
      wald_test norm_cdf theta_mle theta_sd theta0 =
        Inr (map2 (\<lambda>m s. 1 - norm_cdf ((m - (case theta0 of None \<Rightarrow> 0 | Some v \<Rightarrow> v)) / s))
               theta_mle theta_sd))
   \<and> wald_test norm_cdf [1] [1] (Some 0) = Inr [1 - norm_cdf 1]
   \<and> (\<bar>norm_cdf 1 - 84134 / 100000\<bar> \<le> 5 / 100000 \<longrightarrow>
        (\<exists>p. wald_test norm_cdf [1] [1] (Some 0) = Inr [p] \<and> \<bar>p - 1587 / 10000\<bar> \<le> 1 / 10000))"
proof (intro conjI impI)
  assume "length theta_mle = length theta_sd \<and> 0 \<notin> set theta_sd"
  then have "length theta_mle = length theta_sd" ..
  then show "wald_test norm_cdf theta_mle theta_sd theta0 =
       Inr (map2 (\<lambda>m s. 1 - norm_cdf ((m - (case theta0 of None \<Rightarrow> 0 | Some v \<Rightarrow> v)) / s))
              theta_mle theta_sd)"
    unfolding wald_test_def one_minus_def Let_def
    by (simp add: np_binary_same raise_bind_Inr) (rule nth_equalityI, simp_all)
next
  show one: "wald_test norm_cdf [1] [1] (Some 0) = Inr [1 - norm_cdf 1]"
    by (simp add: wald_test_def np_binary_same raise_bind_Inr one_minus_def)
  assume "\<bar>norm_cdf 1 - 84134 / 100000\<bar> \<le> 5 / 100000"
  then have "\<bar>(1 - norm_cdf 1) - 1587 / 10000\<bar> \<le> 1 / 10000"
    by linarith
  with one show "\<exists>p. wald_test norm_cdf [1] [1] (Some 0) = Inr [p] \<and> \<bar>p - 1587 / 10000\<bar> \<le> 1 / 10000"
    by blast
qed

theorem wald_test_formula_witness:
  "length [1, 2 :: real] = length [1, 4 :: real] \<and> 0 \<notin> set [1, 4 :: real]
   \<and> \<bar>sample_norm_cdf 1 - 84134 / 100000\<bar> \<le> 5 / 100000
   \<and> wald_test sample_norm_cdf [1, 2] [1, 4] None = Inr [15866 / 100000, 32933 / 100000]"
  using wald_test_formula [of "[1, 2]" "[1, 4]" sample_norm_cdf None]
  by (simp add: sample_norm_cdf_def)

subsection \<open>Welch's t-test from moments\<close>

text \<open>
  C3. The claim: a shape-mismatch error names the function that raises it and the pair
  of arguments that disagree; in particular the variance check of \<open>t_test_moments\<close>
  names \<^verbatim>\<open>var0\<close> and \<^verbatim>\<open>var1\<close>. With means of equal length and variances of lengths
  \<open>2\<close> and \<open>1\<close>, the function raises the message of the mean check: of the four
  argument names the message mentions \<^verbatim>\<open>mu1\<close> alone, and neither \<^verbatim>\<open>var0\<close> nor
  \<^verbatim>\<open>var1\<close>.
\<close>

theorem t_test_moments_variance_message:
  "t_test_moments t_cdf [1] [2] [1, 1] [1] 5 5 =
     Inl (ValueError ''stats.t_test_moments(): mu and mu1 have to contain the same number of entries'')
   \<and> named_in ''stats.t_test_moments(): mu and mu1 have to contain the same number of entries''
        [(''mu0'', length [1 :: real]), (''mu1'', length [2 :: real]),
         (''var0'', length [1, 1 :: real]), (''var1'', length [1 :: real])]
      = [(''mu1'', 1)]"
  by (simp add: t_test_moments_def named_in_def)

text \<open>
  C6, as stated, fails: equal-length means and equal-length variances do not suffice.
  With two means and three variances per group the guards pass and the division of
  the mean difference by the standard error cannot be broadcast, so the function
  raises numpy's error and returns no p-value.
\<close>

theorem t_test_moments_cross_mismatch_counterexample:
  "length [0, 0 :: real] = length [0, 0 :: real]
   \<and> length [1, 1, 1 :: real] = length [1, 1, 1 :: real]
   \<and> (1 :: int) < 2
   \<and> t_test_moments sample_t_cdf [0, 0] [0, 0] [1, 1, 1] [1, 1, 1] 2 2 =
       Inl (ValueError ''operands could not be broadcast together'')"
  by (simp add: t_test_moments_def t_test_moments_arith_def np_binary_def raise_bind_def
      np_div_int_def np_sqrt_def broadcast_error_def)

text \<open>
  C6, amended. When the mean vectors and the variance vectors all have one common
  length, \<open>n0 > 1\<close>, \<open>n1 > 1\<close> and \<open>var0/n0 + var1/n1\<close> is positive for every feature,
  \<open>t_test_moments\<close> returns for every feature \<open>i\<close> the value \<open>1 - CDF_t(df i)(t i)\<close>,
  where \<open>t i\<close> is Welch's statistic and \<open>df i\<close> the Welch-Satterthwaite degrees of
  freedom of that feature; and every divisor of the two formulas is positive: the
  standard error and the denominator of the degrees of freedom (the counts \<open>n0\<close>,
  \<open>n1\<close>, \<open>n0 - 1\<close>, \<open>n1 - 1\<close> are positive by hypothesis).
  (Where the squared standard error is zero or negative the program yields \<open>inf\<close> or
  \<open>nan\<close>, which the real numbers of the model do not represent.)
\<close>

theorem t_test_moments_welch_formula:
  assumes "length mu0 = length mu1" and "length var0 = length var1"
    and "length mu0 = length var0" and "1 < n0" and "1 < n1"
    and "\<forall>i<length var0. 0 < var0 ! i / real_of_int n0 + var1 ! i / real_of_int n1"
  shows "t_test_moments t_cdf mu0 mu1 var0 var1 n0 n1 =
       Inr (map (\<lambda>i. 1 - t_cdf (spec_welch_df (var0 ! i) (var1 ! i) n0 n1)
                              (spec_welch_t (mu0 ! i) (mu1 ! i) (var0 ! i) (var1 ! i) n0 n1))
              [0..<length mu0])
     \<and> (\<forall>i<length mu0.
           0 < sqrt (var0 ! i / real_of_int n0 + var1 ! i / real_of_int n1)
         \<and> 0 < (var0 ! i / real_of_int n0)\<^sup>2 / real_of_int (n0 - 1)
               + (var1 ! i / real_of_int n1)\<^sup>2 / real_of_int (n1 - 1))"
proof (intro conjI allI impI)
  have "t_test_moments t_cdf mu0 mu1 var0 var1 n0 n1 =
      t_test_moments_arith t_cdf mu0 mu1 var0 var1 n0 n1"
    using assms(1,2) by (simp add: t_test_moments_def)
  also have "\<dots> = Inr (map (\<lambda>i. 1 - t_cdf (spec_welch_df (var0 ! i) (var1 ! i) n0 n1)
                            (spec_welch_t (mu0 ! i) (mu1 ! i) (var0 ! i) (var1 ! i) n0 n1))
            [0..<length mu0])"
    using assms(1-3)
    apply (simp add: t_test_moments_arith_def np_binary_same raise_bind_Inr
        np_div_int_def np_sqrt_def np_square_def one_minus_def)
    apply (rule nth_equalityI)
     apply simp
    apply (simp add: spec_welch_df_def spec_welch_t_def power2_eq_square)
    done
  finally show "t_test_moments t_cdf mu0 mu1 var0 var1 n0 n1 =
       Inr (map (\<lambda>i. 1 - t_cdf (spec_welch_df (var0 ! i) (var1 ! i) n0 n1)
                              (spec_welch_t (mu0 ! i) (mu1 ! i) (var0 ! i) (var1 ! i) n0 n1))
              [0..<length mu0])" .
next
  fix i assume "i < length mu0"
  with assms(3,6) have pos: "0 < var0 ! i / real_of_int n0 + var1 ! i / real_of_int n1"
    by simp
  show "0 < sqrt (var0 ! i / real_of_int n0 + var1 ! i / real_of_int n1)"
    using assms(4,5) pos by (rule welch_divisors_positive(1))
  show "0 < (var0 ! i / real_of_int n0)\<^sup>2 / real_of_int (n0 - 1)
               + (var1 ! i / real_of_int n1)\<^sup>2 / real_of_int (n1 - 1)"
    using assms(4,5) pos by (rule welch_divisors_positive(2))
qed

theorem t_test_moments_welch_formula_witness:
  "length [1 / 2, 1 :: real] = length [0, 1 / 4 :: real]
   \<and> length [1, 2 :: real] = length [1, 0 :: real]
   \<and> length [1 / 2, 1 :: real] = length [1, 2 :: real]
   \<and> (1 :: int) < 2
   \<and> (0 :: real) < 1 / 2 + 1 / 2 \<and> (0 :: real) < 2 / 2 + 0 / 2
   \<and> t_test_moments sample_t_cdf [1 / 2, 1] [0, 1 / 4] [1, 2] [1, 0] 2 2 = Inr [1 / 3, 1 / 5]"
proof -
  have s1: "sqrt (9 / 4) = 3 / 2" and s2: "sqrt (25 / 16) = 5 / 4"
    by (rule real_sqrt_unique; simp add: power2_eq_square)+
  have pos: "\<forall>i<length [1, 2 :: real]. 0 < [1, 2 :: real] ! i / real_of_int 2 + [1, 0 :: real] ! i / real_of_int 2"
    by (simp add: less_Suc_eq nth_Cons')
  have a1: "2 + 1 / 2 * (1 / 2) = (9 / 4 :: real)" and a2: "1 + 3 / 4 * (3 / 4) = (25 / 16 :: real)"
    by simp_all
  have "sample_t_cdf 2 (1 / 2) = 2 / 3"
    unfolding sample_t_cdf_def a1 s1 by simp
  moreover have "sample_t_cdf 1 (3 / 4) = 4 / 5"
    unfolding sample_t_cdf_def a2 s2 by simp
  ultimately show ?thesis
    using t_test_moments_welch_formula [of "[1 / 2, 1]" "[0, 1 / 4]" "[1, 2]" "[1, 0]" 2 2 sample_t_cdf, OF _ _ _ _ _ pos]
    by (simp add: spec_welch_t_def spec_welch_df_def upt_conv_Cons power2_eq_square)
qed

text \<open>
  C10. \<open>t_test_moments\<close> checks the two means against each other and the two variances
  against each other, and nothing else. When both checks pass and the length of the
  means differs from the length of the variances, the result is the result of the
  arithmetic: it is never the error of the guards; it is numpy's broadcast error when
  neither length is one, and a vector of p-values, one side stretched, when one of
  the lengths is one.
\<close>

theorem t_test_moments_cross_mismatch_unchecked:
  assumes "length mu0 = length mu1" and "length var0 = length var1"
    and "length mu0 \<noteq> length var0"
  shows "t_test_moments t_cdf mu0 mu1 var0 var1 n0 n1 =
       t_test_moments_arith t_cdf mu0 mu1 var0 var1 n0 n1
     \<and> t_test_moments t_cdf mu0 mu1 var0 var1 n0 n1 \<noteq>
         Inl (ValueError ''stats.t_test_moments(): mu and mu1 have to contain the same number of entries'')
     \<and> (length mu0 \<noteq> 1 \<and> length var0 \<noteq> 1 \<longrightarrow>
          t_test_moments t_cdf mu0 mu1 var0 var1 n0 n1 =
            Inl (ValueError ''operands could not be broadcast together''))
     \<and> (length mu0 = 1 \<or> length var0 = 1 \<longrightarrow>
          (\<exists>ps. t_test_moments t_cdf mu0 mu1 var0 var1 n0 n1 = Inr ps
             \<and> length ps = (if length mu0 = 1 then length var0 else length mu0)))"
proof -
  have guards: "t_test_moments t_cdf mu0 mu1 var0 var1 n0 n1 =
       t_test_moments_arith t_cdf mu0 mu1 var0 var1 n0 n1"
    using assms by (simp add: t_test_moments_def)
  have bad: "t_test_moments_arith t_cdf mu0 mu1 var0 var1 n0 n1 =
       Inl (ValueError ''operands could not be broadcast together'')"
    if "length mu0 \<noteq> 1" and "length var0 \<noteq> 1"
    using assms that
    by (simp add: t_test_moments_arith_def np_binary_def raise_bind_def np_div_int_def
        np_sqrt_def broadcast_error_def)
  have good: "\<exists>ps. t_test_moments_arith t_cdf mu0 mu1 var0 var1 n0 n1 = Inr ps
       \<and> length ps = (if length mu0 = 1 then length var0 else length mu0)"
    if "length mu0 = 1 \<or> length var0 = 1"
    using assms that
    by (auto simp: t_test_moments_arith_def np_binary_def raise_bind_def np_div_int_def
        np_sqrt_def np_square_def one_minus_def)
  from good bad have "t_test_moments_arith t_cdf mu0 mu1 var0 var1 n0 n1 \<noteq>
      Inl (ValueError ''stats.t_test_moments(): mu and mu1 have to contain the same number of entries'')"
    by (cases "length mu0 = 1 \<or> length var0 = 1") auto
  with guards bad good show ?thesis
    by simp
qed

theorem t_test_moments_cross_mismatch_unchecked_witness:
  "length [0 :: real] = length [0 :: real] \<and> length [1, 1 :: real] = length [1, 1 :: real]
   \<and> length [0 :: real] \<noteq> length [1, 1 :: real]
   \<and> t_test_moments sample_t_cdf [0] [0] [1, 1] [1, 1] 2 2 = Inr [1 / 2, 1 / 2]
   \<and> length [0, 0 :: real] \<noteq> length [1, 1, 1 :: real]
   \<and> length [0, 0 :: real] \<noteq> 1 \<and> length [1, 1, 1 :: real] \<noteq> 1
   \<and> t_test_moments sample_t_cdf [0, 0] [0, 0] [1, 1, 1] [1, 1, 1] 2 2 =
       Inl (ValueError ''operands could not be broadcast together'')"
  using t_test_moments_cross_mismatch_unchecked [of "[0]" "[0]" "[1, 1]" "[1, 1]" sample_t_cdf 2 2]
    t_test_moments_cross_mismatch_unchecked [of "[0, 0]" "[0, 0]" "[1, 1, 1]" "[1, 1, 1]" sample_t_cdf 2 2]
  by (simp add: t_test_moments_arith_def np_binary_def raise_bind_def np_div_int_def
      np_sqrt_def np_square_def one_minus_def sample_t_cdf_def broadcast_error_def)

subsection \<open>Welch's t-test from raw observations\<close>

text \<open>
  C2. The claim: for two one-dimensional arrays of equal length, \<open>t_test_raw\<close> reshapes
  each to a single column and returns one p-value. The first guard reads
  \<^verbatim>\<open>x0.shape[1]\<close> before the reshape, and the shape of a one-dimensional array has no
  second entry: on \<open>x0 = [1, 2, 3]\<close>, \<open>x1 = [2, 3, 4]\<close> the function raises
  \<^verbatim>\<open>IndexError\<close>.
\<close>

theorem t_test_raw_1d_raises_index_error:
  "t_test_raw t_cdf (Arr1 [1, 2, 3]) (Arr1 [2, 3, 4]) =
     Inl (IndexError ''tuple index out of range'')"
  by (simp add: t_test_raw_def shape_at_def raise_bind_Inl tuple_index_error_def)

text \<open>
  C7. For two-dimensional observation matrices \<open>x0\<close> and \<open>x1\<close> with the same number
  \<open>c\<close> of columns, \<open>t_test_raw\<close> returns what \<open>t_test_moments\<close> returns on the means of
  the columns, the population variances of the columns (divisor \<open>n\<close>) and the two row
  counts.
\<close>

theorem t_test_raw_refines_moments:
  assumes "wf_ndarray (Arr2 c rows0)" and "wf_ndarray (Arr2 c rows1)"
  shows "t_test_raw t_cdf (Arr2 c rows0) (Arr2 c rows1) =
     t_test_moments t_cdf
       (map spec_mean (spec_columns c rows0)) (map spec_mean (spec_columns c rows1))
       (map spec_population_variance (spec_columns c rows0))
       (map spec_population_variance (spec_columns c rows1))
       (int (length rows0)) (int (length rows1))"
proof -
  from assms have w0: "list_all (\<lambda>r. length r = c) rows0" and w1: "list_all (\<lambda>r. length r = c) rows1"
    by simp_all
  show ?thesis
    by (simp add: t_test_raw_def shape_at_def raise_bind_Inr reshape_if_1d_def ndim_def
        np_mean_axis0_columns [OF w0] np_mean_axis0_columns [OF w1]
        np_var_axis0_columns [OF w0] np_var_axis0_columns [OF w1])
qed

theorem t_test_raw_refines_moments_witness:
  "wf_ndarray (Arr2 2 [[1, 2], [3, 4], [5, 6]]) \<and> wf_ndarray (Arr2 2 [[2, 3], [4, 5], [6, 7]])
   \<and> t_test_raw sample_t_cdf (Arr2 2 [[1, 2], [3, 4], [5, 6]]) (Arr2 2 [[2, 3], [4, 5], [6, 7]]) =
       t_test_moments sample_t_cdf [3, 4] [4, 5] [8 / 3, 8 / 3] [8 / 3, 8 / 3] 3 3"
  using t_test_raw_refines_moments [of 2 "[[1, 2], [3, 4], [5, 6]]" "[[2, 3], [4, 5], [6, 7]]" sample_t_cdf]
  by (simp add: spec_columns_def spec_mean_def spec_population_variance_def upt_conv_Cons
      power2_eq_square)

subsection \<open>Two-coefficient z-test\<close>

text \<open>
  C8. Whenever two of the four input vectors of \<open>two_coef_z_test\<close> differ in length, the
  function raises a \<^verbatim>\<open>ValueError\<close> whose message mentions the function and exactly
  two of the four argument names, and the two arguments so named differ in length.
  The function returns p-values if and only if the four vectors have one common length.
\<close>

theorem two_coef_z_test_shape_checks:
  "(\<not> (length theta_mle0 = length theta_mle1 \<and> length theta_mle0 = length theta_sd0
        \<and> length theta_mle0 = length theta_sd1) \<longrightarrow>
      (\<exists>msg a la b lb.
         two_coef_z_test norm_cdf theta_mle0 theta_mle1 theta_sd0 theta_sd1 = Inl (ValueError msg)
         \<and> mentions msg ''two_coef_z_test''
         \<and> named_in msg [(''theta_mle0'', length theta_mle0), (''theta_mle1'', length theta_mle1),
                          (''theta_sd0'', length theta_sd0), (''theta_sd1'', length theta_sd1)]
             = [(a, la), (b, lb)]
         \<and> la \<noteq> lb))
   \<and> ((\<exists>ps. two_coef_z_test norm_cdf theta_mle0 theta_mle1 theta_sd0 theta_sd1 = Inr ps)
        \<longleftrightarrow> (length theta_mle0 = length theta_mle1 \<and> length theta_mle0 = length theta_sd0
              \<and> length theta_mle0 = length theta_sd1))"
proof -
  consider (mle) "length theta_mle0 \<noteq> length theta_mle1"
    | (sd) "length theta_mle0 = length theta_mle1" "length theta_sd0 \<noteq> length theta_sd1"
    | (cross) "length theta_mle0 = length theta_mle1" "length theta_sd0 = length theta_sd1"
        "length theta_mle0 \<noteq> length theta_sd0"
    | (ok) "length theta_mle0 = length theta_mle1" "length theta_sd0 = length theta_sd1"
        "length theta_mle0 = length theta_sd0"
    by blast
  then show ?thesis
  proof cases
    case mle
    then show ?thesis
      by (simp add: two_coef_z_test_def named_in_def)
  next
    case sd
    then show ?thesis
      by (simp add: two_coef_z_test_def named_in_def)
  next
    case cross
    then show ?thesis
      by (simp add: two_coef_z_test_def named_in_def)
  next
    case ok
    then show ?thesis
      by (simp add: two_coef_z_test_def np_binary_same raise_bind_Inr np_square_def np_sqrt_def)
  qed
qed

theorem two_coef_z_test_shape_checks_witness:
  "\<not> (length [1, 2 :: real] = length [1, 2 :: real] \<and> length [1, 2 :: real] = length [1 :: real]
        \<and> length [1, 2 :: real] = length [1 :: real])
   \<and> two_coef_z_test sample_norm_cdf [1, 2] [1, 2] [1] [1] =
       Inl (ValueError ''stats.two_coef_z_test(): theta_mle0 and theta_sd0 have to contain the same number of entries'')
   \<and> length [1 :: real] = length [1 :: real]
   \<and> two_coef_z_test sample_norm_cdf [1] [1] [1] [1] = Inr [1 / 2]"
  using two_coef_z_test_shape_checks [of "[1, 2]" "[1, 2]" "[1]" "[1]" sample_norm_cdf]
    two_coef_z_test_shape_checks [of "[1]" "[1]" "[1]" "[1]" sample_norm_cdf]
  by (simp add: two_coef_z_test_def np_binary_same raise_bind_Inr np_square_def np_sqrt_def
      one_minus_def sample_norm_cdf_def)

subsection \<open>Wilcoxon rank-sum test\<close>

text \<open>
  C9. For observation arrays \<open>x0\<close> and \<open>x1\<close> with the same number of dimensions and the
  same feature count (a one-dimensional array counting as one column), \<open>wilcoxon\<close>
  returns one p-value per feature; entry \<open>i\<close> is the two-sided Mann-Whitney U p-value of
  column \<open>i\<close> of \<open>x0\<close> against column \<open>i\<close> of \<open>x1\<close>; and entry \<open>i\<close> is the same for any
  other pair of arrays that has these two columns at \<open>i\<close>, whatever their other columns.
\<close>

theorem wilcoxon_per_feature:
  assumes "wf_ndarray x0" and "wf_ndarray x1"
    and "ndim x0 = ndim x1" and "features x0 = features x1"
  shows "\<exists>ps. wilcoxon mwu x0 x1 = Inr ps \<and> length ps = features x0
     \<and> (\<forall>i<features x0. ps ! i = mwu (spec_column x0 i) (spec_column x1 i))
     \<and> (\<forall>y0 y1 qs i. wf_ndarray y0 \<and> wf_ndarray y1 \<and> ndim y0 = ndim y1
           \<and> features y0 = features y1 \<and> wilcoxon mwu y0 y1 = Inr qs
           \<and> i < features x0 \<and> i < features y0
           \<and> spec_column y0 i = spec_column x0 i \<and> spec_column y1 i = spec_column x1 i
         \<longrightarrow> qs ! i = ps ! i)"
proof -
  let ?ps = "map (\<lambda>i. mwu (spec_column x0 i) (spec_column x1 i)) [0..<features x0]"
  have run: "wilcoxon mwu x0 x1 = Inr ?ps"
    using assms(3,4) by (rule wilcoxon_columns)
  have "qs ! i = ?ps ! i"
    if "ndim y0 = ndim y1" and "features y0 = features y1" and "wilcoxon mwu y0 y1 = Inr qs"
      and "i < features x0" and "i < features y0"
      and "spec_column y0 i = spec_column x0 i" and "spec_column y1 i = spec_column x1 i"
    for y0 y1 qs i
  proof -
    from that(1-3) have "qs = map (\<lambda>i. mwu (spec_column y0 i) (spec_column y1 i)) [0..<features y0]"
      by (simp add: wilcoxon_columns)
    with that(4-7) show ?thesis by simp
  qed
  then have "\<forall>y0 y1 qs i. wf_ndarray y0 \<and> wf_ndarray y1 \<and> ndim y0 = ndim y1
           \<and> features y0 = features y1 \<and> wilcoxon mwu y0 y1 = Inr qs
           \<and> i < features x0 \<and> i < features y0
           \<and> spec_column y0 i = spec_column x0 i \<and> spec_column y1 i = spec_column x1 i
         \<longrightarrow> qs ! i = ?ps ! i"
    by blast
  moreover have "length ?ps = features x0"
    and "\<forall>i<features x0. ?ps ! i = mwu (spec_column x0 i) (spec_column x1 i)"
    by simp_all
  ultimately show ?thesis
    using run by blast
qed

theorem wilcoxon_per_feature_witness:
  "wf_ndarray (Arr2 2 [[1, 2], [3, 4], [5, 6]]) \<and> wf_ndarray (Arr2 2 [[2, 3], [4, 5], [6, 8]])
   \<and> ndim (Arr2 2 [[1, 2], [3, 4], [5, 6]]) = ndim (Arr2 2 [[2, 3], [4, 5], [6, 8]])
   \<and> features (Arr2 2 [[1, 2], [3, 4], [5, 6]]) = features (Arr2 2 [[2, 3], [4, 5], [6, 8]])
   \<and> wilcoxon sample_mannwhitneyu (Arr2 2 [[1, 2], [3, 4], [5, 6]]) (Arr2 2 [[2, 3], [4, 5], [6, 8]]) =
       Inr [sample_mannwhitneyu [1, 3, 5] [2, 4, 6], sample_mannwhitneyu [2, 4, 6] [3, 5, 8]]"
proof -
  let ?x0 = "Arr2 2 [[1, 2], [3, 4], [5, 6]]" and ?x1 = "Arr2 2 [[2, 3], [4, 5], [6, 8]]"
  have h: "wf_ndarray ?x0" "wf_ndarray ?x1" "ndim ?x0 = ndim ?x1" "features ?x0 = features ?x1"
    by (simp_all add: ndim_def)
  from wilcoxon_per_feature [OF h, of sample_mannwhitneyu] obtain ps
    where run: "wilcoxon sample_mannwhitneyu ?x0 ?x1 = Inr ps"
      and len: "length ps = features ?x0"
      and entry: "\<forall>i<features ?x0. ps ! i = sample_mannwhitneyu (spec_column ?x0 i) (spec_column ?x1 i)"
    by blast
  from entry have "ps ! 0 = sample_mannwhitneyu [1, 3, 5] [2, 4, 6]"
    and "ps ! 1 = sample_mannwhitneyu [2, 4, 6] [3, 5, 8]"
    by simp_all
  with len have "ps = [sample_mannwhitneyu [1, 3, 5] [2, 4, 6], sample_mannwhitneyu [2, 4, 6] [3, 5, 8]]"
    by (simp add: list_eq_iff_nth_eq less_Suc_eq numeral_2_eq_2)
  with run h show ?thesis
    by simp
qed

end
